theory Spec2Isabelle
  imports
    Complex_Main
    "HOL-Library.AList"
    "HOL-Library.Sublist"
    "HOL-Library.Char_ord"
    "HOL-Library.List_Lexorder"
begin

section \<open>Parallel-coordinate plots: a model of \<open>src/pcp/plot/pcp_plot.py\<close>\<close>

text \<open>
  The module holds two functions over toolkit objects: \<open>_parallel_plot\<close>, which turns a
  pandas dataframe into a Bokeh figure, and \<open>_get_widgets\<close>, which turns the style
  properties of a Bokeh model into Panel widgets. Both are embedded below, statement by
  statement. The calls into pandas, numpy, Bokeh and Panel are library code outside the
  repository; each is given the definition its documentation states, next to the line
  of the source that calls it.

  Scope of the data model.
  \<^item> A numeric cell is a real number: arithmetic is exact, so the rounding and overflow
    of 64-bit floats are not part of the model, and an input cell is never a missing
    value. The special values the library produces from such inputs are kept: the
    reduction of an empty column is \<open>NaN\<close>, and a quotient with a zero divisor is
    \<open>NaN\<close> or an infinity.
  \<^item> A column has one of two dtypes: numeric, or \<open>object\<close> holding strings.
  \<^item> Column labels are strings.
\<close>

subsection \<open>Numbers\<close>

datatype num = Num real | NaN

fun num_add :: "num \<Rightarrow> num \<Rightarrow> num" where
  "num_add (Num a) (Num b) = Num (a + b)"
| "num_add _ _ = NaN"

fun num_sub :: "num \<Rightarrow> num \<Rightarrow> num" where
  "num_sub (Num a) (Num b) = Num (a - b)"
| "num_sub _ _ = NaN"

fun num_mul :: "num \<Rightarrow> num \<Rightarrow> num" where
  "num_mul (Num a) (Num b) = Num (a * b)"
| "num_mul _ _ = NaN"

fun num_abs :: "num \<Rightarrow> num" where
  "num_abs (Num a) = Num \<bar>a\<bar>"
| "num_abs NaN = NaN"

text \<open>
  Division of pandas objects follows IEEE 754 and never raises: \<open>0 / 0\<close> is \<open>NaN\<close> and
  \<open>a / 0\<close> is an infinity with the sign of \<open>a\<close> (the divisor of the source, \<open>max - min\<close>,
  is a non-negative zero).
\<close>

datatype quot = Quot real | QNaN | QPosInf | QNegInf

fun num_div :: "num \<Rightarrow> num \<Rightarrow> quot" where
  "num_div (Num a) (Num b) =
     (if b \<noteq> 0 then Quot (a / b)
      else if a = 0 then QNaN
      else if 0 < a then QPosInf else QNegInf)"
| "num_div _ _ = QNaN"

subsection \<open>Errors\<close>

text \<open>
  The exceptions the function can raise on inputs of the model. \<open>UnboundRef\<close> is not a
  Python exception: it is the result of the model when it is handed a reference that the
  store does not hold, which a Python program cannot do.
\<close>

datatype error = KeyError | ValueError | TypeError | UnboundRef

subsection \<open>Series and dataframes\<close>

datatype series = Float "real list" | Object "string list"

fun series_len :: "series \<Rightarrow> nat" where
  "series_len (Float xs) = length xs"
| "series_len (Object xs) = length xs"

fun is_object :: "series \<Rightarrow> bool" where
  "is_object (Object _) = True"
| "is_object (Float _) = False"

text \<open>
  A dataframe is its index length (\<open>df.shape[0]\<close>, which a frame keeps when it has no
  column left) and its labelled columns in order.
\<close>

record dataframe =
  nrows :: nat
  columns :: "(string \<times> series) list"

text \<open>
  The frames the properties are stated for: every column has the length of the index, as
  in every pandas frame, and no two columns have the same label.
\<close>

definition wf_df :: "dataframe \<Rightarrow> bool" where
  "wf_df df \<longleftrightarrow>
     distinct (map fst (columns df)) \<and>
     list_all (\<lambda>c. series_len (snd c) = nrows df) (columns df)"

text \<open>\<open>Series.min()\<close> and \<open>Series.max()\<close>: \<open>NaN\<close> on an empty series.\<close>

fun reduce_min :: "real list \<Rightarrow> num" where
  "reduce_min [] = NaN"
| "reduce_min (x # xs) = Num (fold min xs x)"

fun reduce_max :: "real list \<Rightarrow> num" where
  "reduce_max [] = NaN"
| "reduce_max (x # xs) = Num (fold max xs x)"

text \<open>
  \<open>Series.unique()\<close>: the distinct values in order of first appearance (a scan that
  records every value it has not seen yet).
\<close>

fun unique_scan :: "'a list \<Rightarrow> 'a list \<Rightarrow> 'a list" where
  "unique_scan seen [] = []"
| "unique_scan seen (x # xs) =
     (if x \<in> set seen then unique_scan seen xs else x # unique_scan (x # seen) xs)"

definition unique :: "'a list \<Rightarrow> 'a list" where
  "unique xs = unique_scan [] xs"

text \<open>
  \<open>np.where(u == elem)[0]\<close>: the positions of \<open>u\<close> that hold \<open>elem\<close>;
  \<open>.item()\<close>: the only element of an array of size one, \<open>ValueError\<close> otherwise.
\<close>

definition np_where_eq :: "'a list \<Rightarrow> 'a \<Rightarrow> nat list" where
  "np_where_eq u elem = filter (\<lambda>i. u ! i = elem) [0..<length u]"

fun item :: "nat list \<Rightarrow> error + nat" where
  "item [i] = Inr i"
| "item _ = Inl ValueError"

text \<open>\<open>Series.apply(f)\<close> for an \<open>f\<close> that may raise: the first exception ends the call.\<close>

fun series_apply :: "('a \<Rightarrow> error + 'b) \<Rightarrow> 'a list \<Rightarrow> error + 'b list" where
  "series_apply f [] = Inr []"
| "series_apply f (x # xs) =
     (case f x of
        Inl e \<Rightarrow> Inl e
      | Inr y \<Rightarrow> (case series_apply f xs of Inl e \<Rightarrow> Inl e | Inr ys \<Rightarrow> Inr (y # ys)))"

text \<open>
  Lines 38 and 42 to 44: \<open>s.apply(lambda elem: np.where(s.unique() == elem)[0].item())\<close>.
  The lambda reads \<open>s\<close> while \<open>apply\<close> runs, that is before the result is assigned, so
  \<open>s.unique()\<close> is taken of the values as they were. The codes are integers, hence the
  result is a numeric series.
\<close>

definition enumerate_values :: "'a list \<Rightarrow> error + real list" where
  "enumerate_values vals =
     series_apply
       (\<lambda>elem. case item (np_where_eq (unique vals) elem) of
                 Inl e \<Rightarrow> Inl e
               | Inr i \<Rightarrow> Inr (real i))
       vals"

fun enumerate_series :: "series \<Rightarrow> error + series" where
  "enumerate_series (Object vals) =
     (case enumerate_values vals of Inl e \<Rightarrow> Inl e | Inr codes \<Rightarrow> Inr (Float codes))"
| "enumerate_series (Float xs) =
     (case enumerate_values xs of Inl e \<Rightarrow> Inl e | Inr codes \<Rightarrow> Inr (Float codes))"

text \<open>\<open>df[col]\<close>: the column labelled \<open>col\<close>, \<open>KeyError\<close> when there is none.\<close>

definition getitem :: "dataframe \<Rightarrow> string \<Rightarrow> error + series" where
  "getitem df col =
     (case map_of (columns df) col of None \<Rightarrow> Inl KeyError | Some s \<Rightarrow> Inr s)"

text \<open>\<open>df[col] = s\<close>: replaces the column in place, or appends a new one.\<close>

definition setitem :: "dataframe \<Rightarrow> string \<Rightarrow> series \<Rightarrow> dataframe" where
  "setitem df col s =
     (if col \<in> set (map fst (columns df))
      then df\<lparr>columns := map (\<lambda>c. if fst c = col then (col, s) else c) (columns df)\<rparr>
      else df\<lparr>columns := columns df @ [(col, s)]\<rparr>)"

text \<open>
  \<open>df.drop(labels, axis=1)\<close>: a new frame without the labelled columns, \<open>KeyError\<close> when
  a label names no column. \<open>df.copy()\<close>: a new frame with the same contents.
\<close>

definition df_drop :: "dataframe \<Rightarrow> string list \<Rightarrow> error + dataframe" where
  "df_drop df labels =
     (if list_all (\<lambda>l. l \<in> set (map fst (columns df))) labels
      then Inr (df\<lparr>columns := filter (\<lambda>c. fst c \<notin> set labels) (columns df)\<rparr>)
      else Inl KeyError)"

definition df_copy :: "dataframe \<Rightarrow> dataframe" where
  "df_copy df = df"

text \<open>Lines 26 to 29: the frame the function works on.\<close>

definition working_copy :: "dataframe \<Rightarrow> string list option \<Rightarrow> error + dataframe" where
  "working_copy df_raw drop' =
     (case drop' of
        Some labels \<Rightarrow> df_drop df_raw labels
      | None \<Rightarrow> Inr (df_copy df_raw))"

text \<open>Line 40: \<open>df.columns.where(df.dtypes == np.object_).dropna()\<close>.\<close>

definition categorical_columns :: "dataframe \<Rightarrow> string list" where
  "categorical_columns df = map fst (filter (\<lambda>c. is_object (snd c)) (columns df))"

subsection \<open>The store\<close>

text \<open>
  Dataframes are mutable objects. The store holds them by reference; a reference is a
  position of the store and a new object is put at its end.
\<close>

type_synonym ref = nat
type_synonym store = "dataframe list"

definition load :: "store \<Rightarrow> ref \<Rightarrow> dataframe option" where
  "load st r = (if r < length st then Some (st ! r) else None)"

definition alloc :: "store \<Rightarrow> dataframe \<Rightarrow> store \<times> ref" where
  "alloc st df = (st @ [df], length st)"

text \<open>
  Lines 41 to 44: the loop over the categorical columns. Each round reads the column of
  the frame behind \<open>r\<close> and writes the enumerated column back into that frame.
\<close>

fun enumerate_loop :: "store \<Rightarrow> ref \<Rightarrow> string list \<Rightarrow> store \<times> (error + unit)" where
  "enumerate_loop st r [] = (st, Inr ())"
| "enumerate_loop st r (col # cols) =
     (case load st r of
        None \<Rightarrow> (st, Inl UnboundRef)
      | Some df \<Rightarrow>
          (case getitem df col of
             Inl e \<Rightarrow> (st, Inl e)
           | Inr s \<Rightarrow>
               (case enumerate_series s of
                  Inl e \<Rightarrow> (st, Inl e)
                | Inr s' \<Rightarrow> enumerate_loop (st[r := setitem df col s']) r cols)))"


subsection \<open>Colour values and the colour mapper\<close>

text \<open>
  Lines 33 to 39. \<open>color\<close> is \<open>None\<close> or a pandas series; after line 34 it is a numpy
  array or a pandas series, whose \<open>min()\<close> and \<open>max()\<close> differ on empty data: numpy
  raises \<open>ValueError\<close>, pandas returns \<open>NaN\<close>.
\<close>

datatype colordata = NpArray "real list" | PdSeries "real list"

fun color_list :: "colordata \<Rightarrow> real list" where
  "color_list (NpArray xs) = xs"
| "color_list (PdSeries xs) = xs"

definition np_ones :: "nat \<Rightarrow> real list" where
  "np_ones n = replicate n 1"

definition color_values :: "nat \<Rightarrow> series option \<Rightarrow> error + colordata" where
  "color_values npts color =
     (case color of
        None \<Rightarrow> Inr (NpArray (np_ones npts))
      | Some (Float xs) \<Rightarrow> Inr (PdSeries xs)
      | Some (Object vals) \<Rightarrow>
          (case enumerate_values vals of
             Inl e \<Rightarrow> Inl e
           | Inr codes \<Rightarrow> Inr (PdSeries codes)))"

fun color_min :: "colordata \<Rightarrow> error + num" where
  "color_min (NpArray []) = Inl ValueError"
| "color_min (NpArray xs) = Inr (reduce_min xs)"
| "color_min (PdSeries xs) = Inr (reduce_min xs)"

fun color_max :: "colordata \<Rightarrow> error + num" where
  "color_max (NpArray []) = Inl ValueError"
| "color_max (NpArray xs) = Inr (reduce_max xs)"
| "color_max (PdSeries xs) = Inr (reduce_max xs)"

record color_mapper =
  high :: num
  low :: num
  palette :: "string list"

definition default_palette :: "string list option \<Rightarrow> string list" where
  "default_palette palette' = (case palette' of None \<Rightarrow> [''#ff0000''] | Some pal \<Rightarrow> pal)"

text \<open>Line 39: \<open>LinearColorMapper(high=color.min(), low=color.max(), palette=palette)\<close>.\<close>

definition make_cmap :: "colordata \<Rightarrow> string list \<Rightarrow> error + color_mapper" where
  "make_cmap color pal =
     (case color_min color of
        Inl e \<Rightarrow> Inl e
      | Inr mn \<Rightarrow>
          (case color_max color of
             Inl e \<Rightarrow> Inl e
           | Inr mx \<Rightarrow> Inr \<lparr>high = mn, low = mx, palette = pal\<rparr>))"

subsection \<open>The data source\<close>

text \<open>
  A numeric column's values; arithmetic on a column of strings raises \<open>TypeError\<close>.
\<close>

fun numeric_values :: "series \<Rightarrow> error + real list" where
  "numeric_values (Float xs) = Inr xs"
| "numeric_values (Object vals) = Inl TypeError"

text \<open>
  Line 49, for one column: \<open>(s - s.min()) / (s.max() - s.min())\<close>, element by element.
\<close>

definition normalize_values :: "real list \<Rightarrow> quot list" where
  "normalize_values xs =
     map (\<lambda>x. num_div (num_sub (Num x) (reduce_min xs))
                       (num_sub (reduce_max xs) (reduce_min xs))) xs"

fun normalize_columns :: "(string \<times> series) list \<Rightarrow> error + quot list list" where
  "normalize_columns [] = Inr []"
| "normalize_columns (c # cs) =
     (case numeric_values (snd c) of
        Inl e \<Rightarrow> Inl e
      | Inr xs \<Rightarrow>
          (case normalize_columns cs of
             Inl e \<Rightarrow> Inl e
           | Inr yss \<Rightarrow> Inr (normalize_values xs # yss)))"

text \<open>\<open>np.array(frame).tolist()\<close>: the rows of the frame, one list per row.\<close>

definition to_rows :: "nat \<Rightarrow> 'a list list \<Rightarrow> 'a list list" where
  "to_rows n cols = map (\<lambda>i. map (\<lambda>c. c ! i) cols) [0..<n]"

record data_source =
  data_xs :: "nat list list"
  data_ys :: "quot list list"
  data_color :: "real list"

text \<open>
  Lines 46 to 52. \<open>np.arange(ndims)[None, :].repeat(npts, axis=0)\<close> is \<open>npts\<close> copies of
  \<open>[0, ..., ndims - 1]\<close>.
\<close>

definition make_source :: "dataframe \<Rightarrow> nat \<Rightarrow> nat \<Rightarrow> colordata \<Rightarrow> error + data_source" where
  "make_source df npts ndims cv =
     (case normalize_columns (columns df) of
        Inl e \<Rightarrow> Inl e
      | Inr cols \<Rightarrow>
          Inr \<lparr>data_xs = replicate npts [0..<ndims],
               data_ys = to_rows (nrows df) cols,
               data_color = color_list cv\<rparr>)"

subsection \<open>Bokeh objects\<close>

record range1d =
  r_start :: num
  r_end :: num
  r_bounds :: "(num \<times> num) option"

record fixed_ticker =
  ticks :: "num list"
  minor_ticks :: "num list"

record linear_axis =
  fixed_location :: nat
  y_range_name :: string
  ticker :: fixed_ticker
  formatter_precision :: nat
  major_label_overrides :: "(nat \<times> string) list"

datatype tool =
  PanTool | BoxZoomTool | TapTool | WheelZoomTool | PCPResetTool
| PCPSelectionTool (box_width: nat)

datatype active = Auto | NoTool | Active tool

datatype renderer =
  MultiLineRenderer (source: data_source) (selection_transform: color_mapper)
| RectRenderer

record figure =
  x_range :: range1d
  y_range :: range1d
  x_ticker :: fixed_ticker
  x_labels :: "string list"
  extra_y_ranges :: "string \<rightharpoonup> range1d"
  right :: "linear_axis list"
  renderers :: "renderer list"
  tools :: "tool list"
  active_drag :: active
  active_tap :: active

text \<open>\<open>np.arange(n)\<close> for an integer \<open>n\<close>, as numbers.\<close>

definition arange :: "nat \<Rightarrow> num list" where
  "arange n = map (\<lambda>i. Num (real i)) [0..<n]"

text \<open>
  \<open>np.arange(stop)\<close> for a number: the integers from 0 below \<open>stop\<close>; \<open>ValueError\<close>
  (\<open>cannot compute length\<close>) when \<open>stop\<close> is \<open>NaN\<close>.
\<close>

fun np_arange :: "num \<Rightarrow> error + num list" where
  "np_arange NaN = Inl ValueError"
| "np_arange (Num stop) = Inr (arange (nat \<lceil>stop\<rceil>))"

text \<open>
  \<open>np.linspace(start, stop, n)\<close>: \<open>start + i * ((stop - start) / (n - 1))\<close> for
  \<open>i < n\<close>, the last sample being \<open>stop\<close> itself when \<open>n > 1\<close>.
\<close>

fun np_linspace :: "num \<Rightarrow> num \<Rightarrow> nat \<Rightarrow> num list" where
  "np_linspace (Num a) (Num b) n =
     map (\<lambda>i. Num (if 1 < n \<and> Suc i = n then b
                   else a + real i * ((b - a) / real (n - 1)))) [0..<n]"
| "np_linspace _ _ n = replicate n NaN"

text \<open>
  Lines 54 to 75: \<open>figure(x_range=(-1, ndims), y_range=(0, 1), tools="pan, box_zoom")\<close>,
  the ticks and labels of the x axis, and the bounds of the y range.
\<close>

definition init_figure :: "dataframe \<Rightarrow> nat \<Rightarrow> figure" where
  "init_figure df ndims =
     \<lparr>x_range = \<lparr>r_start = Num (- 1), r_end = Num (real ndims), r_bounds = None\<rparr>,
      y_range = \<lparr>r_start = Num 0, r_end = Num 1,
                 r_bounds = Some (Num (- (1 / 10)), Num (11 / 10))\<rparr>,
      x_ticker = \<lparr>ticks = arange ndims, minor_ticks = []\<rparr>,
      x_labels = map fst (columns df),
      extra_y_ranges = Map.empty,
      right = [],
      renderers = [],
      tools = [PanTool, BoxZoomTool],
      active_drag = Auto,
      active_tap = Auto\<rparr>"

text \<open>
  Lines 86 to 93: the ticker and the label overrides of one axis. \<open>str\<close> of a string is
  the string; \<open>fmt\<close> stands for \<open>str\<close> on numbers.
\<close>

fun override_names :: "(real \<Rightarrow> string) \<Rightarrow> series \<Rightarrow> string list" where
  "override_names fmt (Object vals) = unique vals"
| "override_names fmt (Float xs) = map fmt (unique xs)"

definition axis_ticks ::
  "(real \<Rightarrow> string) \<Rightarrow> dataframe \<Rightarrow> string list \<Rightarrow> string \<Rightarrow> num \<Rightarrow> num \<Rightarrow>
     error + fixed_ticker \<times> (nat \<times> string) list" where
  "axis_ticks fmt df_raw cats col start end' =
     (if col \<notin> set cats
      then Inr (\<lparr>ticks = np_linspace start end' 8, minor_ticks = []\<rparr>, [])
      else
        (case np_arange (num_add end' (Num 1)) of
           Inl e \<Rightarrow> Inl e
         | Inr ts \<Rightarrow>
             (case getitem df_raw col of
                Inl e \<Rightarrow> Inl e
              | Inr s \<Rightarrow>
                  Inr (\<lparr>ticks = ts, minor_ticks = []\<rparr>,
                       List.enumerate 0 (override_names fmt s)))))"

text \<open>Lines 80 and 81: \<open>start = df[col].min()\<close> and \<open>end = df[col].max()\<close>.\<close>

definition column_range :: "dataframe \<Rightarrow> string \<Rightarrow> error + num \<times> num" where
  "column_range df col =
     (case getitem df col of
        Inl e \<Rightarrow> Inl e
      | Inr s \<Rightarrow>
          (case numeric_values s of
             Inl e \<Rightarrow> Inl e
           | Inr vals \<Rightarrow> Inr (reduce_min vals, reduce_max vals)))"

text \<open>
  Lines 82 to 84: the range of the axis, padded by the share of the column's span that
  the bounds of the figure's y range leave around that range.
\<close>

definition padded_range :: "range1d \<Rightarrow> num \<Rightarrow> num \<Rightarrow> error + range1d" where
  "padded_range yr start end' =
     (case r_bounds yr of
        None \<Rightarrow> Inl TypeError
      | Some (lo, hi) \<Rightarrow>
          let bound_min = num_add start (num_mul (num_abs (num_sub end' start))
                                                 (num_sub lo (r_start yr)));
              bound_max = num_add end' (num_mul (num_abs (num_sub end' start))
                                                (num_sub hi (r_end yr)))
          in Inr \<lparr>r_start = bound_min, r_end = bound_max,
                  r_bounds = Some (bound_min, bound_max)\<rparr>)"

text \<open>Lines 79 to 104: one round of the loop over \<open>enumerate(df.columns)\<close>.\<close>

definition add_axis ::
  "(real \<Rightarrow> string) \<Rightarrow> dataframe \<Rightarrow> dataframe \<Rightarrow> string list \<Rightarrow> figure \<Rightarrow> nat \<Rightarrow> string \<Rightarrow>
     error + figure" where
  "add_axis fmt df_raw df cats p index col =
     (case column_range df col of
        Inl e \<Rightarrow> Inl e
      | Inr (start, end') \<Rightarrow>
     (case padded_range (y_range p) start end' of
        Inl e \<Rightarrow> Inl e
      | Inr range1d \<Rightarrow>
          let p1 = p\<lparr>extra_y_ranges := (extra_y_ranges p)(col \<mapsto> range1d)\<rparr>
          in (case axis_ticks fmt df_raw cats col start end' of
                Inl e \<Rightarrow> Inl e
              | Inr (fixedticks, overrides) \<Rightarrow>
                  Inr (p1\<lparr>right := right p1 @
                         [\<lparr>fixed_location = index, y_range_name = col,
                           ticker = fixedticks, formatter_precision = 1,
                           major_label_overrides = overrides\<rparr>]\<rparr>))))"

fun add_axes ::
  "(real \<Rightarrow> string) \<Rightarrow> dataframe \<Rightarrow> dataframe \<Rightarrow> string list \<Rightarrow> figure \<Rightarrow> nat \<Rightarrow> string list \<Rightarrow>
     error + figure" where
  "add_axes fmt df_raw df cats p index [] = Inr p"
| "add_axes fmt df_raw df cats p index (col # cols) =
     (case add_axis fmt df_raw df cats p index col of
        Inl e \<Rightarrow> Inl e
      | Inr p' \<Rightarrow> add_axes fmt df_raw df cats p' (Suc index) cols)"

text \<open>
  Lines 106 to 167: the renderers, the final y range, the tools and the toolbar.
  \<open>add_tools\<close> appends to the tools the figure was created with.
\<close>

definition finish_figure :: "figure \<Rightarrow> data_source \<Rightarrow> color_mapper \<Rightarrow> error + figure" where
  "finish_figure p src cmap =
     (case r_bounds (y_range p) of
        None \<Rightarrow> Inl TypeError
      | Some (lo, hi) \<Rightarrow>
          let parallel_renderer = MultiLineRenderer src cmap;
              selection_renderer = RectRenderer;
              selection_tool = PCPSelectionTool 10;
              reset_axes = PCPResetTool
          in Inr (p\<lparr>renderers := renderers p @ [parallel_renderer, selection_renderer],
                    y_range := (y_range p)\<lparr>r_start := lo, r_end := hi\<rparr>,
                    tools := tools p @ [selection_tool, reset_axes, TapTool, WheelZoomTool],
                    active_drag := Active selection_tool,
                    active_tap := NoTool\<rparr>))"

subsection \<open>\<open>_parallel_plot\<close>\<close>

text \<open>
  Lines 46 to 167, after the enumeration: everything is read from the frame behind \<open>r\<close>
  and from the caller's frame behind \<open>r_raw\<close>; nothing is written to the store.
\<close>

definition build_figure ::
  "(real \<Rightarrow> string) \<Rightarrow> store \<Rightarrow> ref \<Rightarrow> ref \<Rightarrow> string list \<Rightarrow> nat \<Rightarrow> nat \<Rightarrow> colordata \<Rightarrow>
     color_mapper \<Rightarrow> error + figure" where
  "build_figure fmt st r_raw r cats npts ndims cv cmap =
     (case load st r_raw of
        None \<Rightarrow> Inl UnboundRef
      | Some df_raw \<Rightarrow>
     (case load st r of
        None \<Rightarrow> Inl UnboundRef
      | Some df \<Rightarrow>
     (case make_source df npts ndims cv of
        Inl e \<Rightarrow> Inl e
      | Inr src \<Rightarrow>
     (case add_axes fmt df_raw df cats (init_figure df ndims) 0 (map fst (columns df)) of
        Inl e \<Rightarrow> Inl e
      | Inr p \<Rightarrow> finish_figure p src cmap))))"

text \<open>
  The whole function. It takes the store and the reference of \<open>df_raw\<close>, and returns the
  store it leaves behind together with the figure or the exception. \<open>drop\<close> is \<open>None\<close> or
  a list of labels (a single label is the list of that label).
\<close>

definition parallel_plot ::
  "(real \<Rightarrow> string) \<Rightarrow> store \<Rightarrow> ref \<Rightarrow> string list option \<Rightarrow> series option \<Rightarrow>
     string list option \<Rightarrow> store \<times> (error + figure)" where
  "parallel_plot fmt st r_raw drop' color palette' =
     (case load st r_raw of
        None \<Rightarrow> (st, Inl UnboundRef)
      | Some df_raw \<Rightarrow>
     (case working_copy df_raw drop' of
        Inl e \<Rightarrow> (st, Inl e)
      | Inr df0 \<Rightarrow>
          let (st1, r) = alloc st df0;
              npts = nrows df0;
              ndims = length (columns df0)
          in
     (case color_values npts color of
        Inl e \<Rightarrow> (st1, Inl e)
      | Inr cv \<Rightarrow>
     (case make_cmap cv (default_palette palette') of
        Inl e \<Rightarrow> (st1, Inl e)
      | Inr cmap \<Rightarrow>
          let cats = categorical_columns df0
          in
     (case enumerate_loop st1 r cats of
        (st2, Inl e) \<Rightarrow> (st2, Inl e)
      | (st2, Inr u) \<Rightarrow>
          (st2, build_figure fmt st2 r_raw r cats npts ndims cv cmap))))))"


subsection \<open>\<open>_get_widgets\<close>\<close>


















subsection \<open>Definitions used to state the properties\<close>

text \<open>The position of the first occurrence of a value in a list.\<close>

fun first_index :: "'a list \<Rightarrow> 'a \<Rightarrow> nat" where
  "first_index [] e = 0"
| "first_index (x # xs) e = (if x = e then 0 else Suc (first_index xs e))"

text \<open>The codes of a series: every value replaced by its position among the unique values.\<close>

fun codes :: "series \<Rightarrow> real list" where
  "codes (Object vals) = map (\<lambda>e. real (first_index (unique vals) e)) vals"
| "codes (Float xs) = map (\<lambda>e. real (first_index (unique xs) e)) xs"

text \<open>A frame with its columns of strings replaced by their codes.\<close>

definition enum_col :: "string \<times> series \<Rightarrow> string \<times> series" where
  "enum_col c = (if is_object (snd c) then (fst c, Float (codes (snd c))) else c)"

definition enumerated :: "dataframe \<Rightarrow> dataframe" where
  "enumerated df = df\<lparr>columns := map enum_col (columns df)\<rparr>"


text \<open>The enumeration of the columns whose labels are in a list of labels.\<close>

definition enum_sel :: "string list \<Rightarrow> string \<times> series \<Rightarrow> string \<times> series" where
  "enum_sel cols c = (if fst c \<in> set cols then (fst c, Float (codes (snd c))) else c)"


text \<open>
  The range and the axis that one round of the loop over the columns makes, by itself.
\<close>

definition column_axis ::
  "(real \<Rightarrow> string) \<Rightarrow> dataframe \<Rightarrow> dataframe \<Rightarrow> string list \<Rightarrow> range1d \<Rightarrow> nat \<Rightarrow> string \<Rightarrow>
     error + range1d \<times> linear_axis" where
  "column_axis fmt df_raw df cats yr index col =
     (case column_range df col of
        Inl e \<Rightarrow> Inl e
      | Inr (start, end') \<Rightarrow>
     (case padded_range yr start end' of
        Inl e \<Rightarrow> Inl e
      | Inr rng \<Rightarrow>
     (case axis_ticks fmt df_raw cats col start end' of
        Inl e \<Rightarrow> Inl e
      | Inr (tk, ov) \<Rightarrow>
          Inr (rng, \<lparr>fixed_location = index, y_range_name = col, ticker = tk,
                     formatter_precision = 1, major_label_overrides = ov\<rparr>))))"


text \<open>A frame for the examples: two numeric columns around a column of strings.\<close>

definition example_df :: dataframe where
  "example_df = \<lparr>nrows = 3, columns =
     [(''a'', Float [1, 3, 2]), (''b'', Object [''x'', ''y'', ''x'']), (''c'', Float [5, 5, 5])]\<rparr>"


section \<open>Properties\<close>

subsection \<open>Unique values and codes\<close>

lemma set_unique_scan: "set (unique_scan seen xs) = set xs - set seen"
  by (induction seen xs rule: unique_scan.induct) auto

lemma distinct_unique_scan: "distinct (unique_scan seen xs)"
  by (induction seen xs rule: unique_scan.induct) (auto simp: set_unique_scan)

lemma set_unique: "set (unique xs) = set xs"
  by (simp add: unique_def set_unique_scan)

lemma distinct_unique: "distinct (unique xs)"
  by (simp add: unique_def distinct_unique_scan)


lemma first_index_less: "e \<in> set u \<Longrightarrow> first_index u e < length u"
  by (induction u) auto

lemma nth_first_index: "e \<in> set u \<Longrightarrow> u ! first_index u e = e"
  by (induction u) auto

lemma first_index_nth: "distinct u \<Longrightarrow> i < length u \<Longrightarrow> first_index u (u ! i) = i"
  by (induction u arbitrary: i) (auto simp: nth_Cons split: nat.splits)

lemma distinct_set_single: "distinct xs \<Longrightarrow> set xs = {k} \<Longrightarrow> xs = [k]"
proof (cases xs)
  case Nil
  assume "set xs = {k}"
  with Nil show ?thesis by simp
next
  case (Cons a ys)
  assume d: "distinct xs" and s: "set xs = {k}"
  from Cons s have a: "a = k" by auto
  from Cons d a have "k \<notin> set ys" by simp
  moreover from Cons s have "set ys \<subseteq> {k}" by auto
  ultimately have "ys = []" by (cases ys) auto
  with Cons a show ?thesis by simp
qed

lemma np_where_eq_distinct:
  assumes "distinct u" "e \<in> set u"
  shows "np_where_eq u e = [first_index u e]"
proof -
  let ?k = "first_index u e"
  have k: "?k < length u" "u ! ?k = e"
    using assms by (simp_all add: first_index_less nth_first_index)
  have "set (np_where_eq u e) = {?k}"
    using assms k by (auto simp: np_where_eq_def first_index_nth)
  moreover have "distinct (np_where_eq u e)"
    by (simp add: np_where_eq_def)
  ultimately show ?thesis
    by (simp add: distinct_set_single)
qed

lemma series_apply_map:
  "(\<And>x. x \<in> set xs \<Longrightarrow> f x = Inr (g x)) \<Longrightarrow> series_apply f xs = Inr (map g xs)"
  by (induction xs) auto

lemma enumerate_values_eq:
  "enumerate_values vals = Inr (map (\<lambda>e. real (first_index (unique vals) e)) vals)"
  unfolding enumerate_values_def
  by (rule series_apply_map) (simp add: np_where_eq_distinct distinct_unique set_unique)

lemma enumerate_series_eq: "enumerate_series s = Inr (Float (codes s))"
  by (cases s) (simp_all add: enumerate_values_eq)

subsection \<open>The loop over the categorical columns\<close>

lemma length_enumerate_loop: "length (fst (enumerate_loop st r cols)) = length st"
  by (induction st r cols rule: enumerate_loop.induct)
     (auto split: option.splits sum.splits)

lemma nth_enumerate_loop: "i \<noteq> r \<Longrightarrow> fst (enumerate_loop st r cols) ! i = st ! i"
  by (induction st r cols rule: enumerate_loop.induct)
     (auto split: option.splits sum.splits)

lemma fst_enum_sel: "fst (enum_sel cols c) = fst c"
  by (simp add: enum_sel_def)

lemma map_fst_enum_sel: "map fst (map (enum_sel cols) cs) = map fst cs"
  by (induction cs) (simp_all add: enum_sel_def)

lemma getitem_member:
  "distinct (map fst (columns df)) \<Longrightarrow> (col, s) \<in> set (columns df) \<Longrightarrow> getitem df col = Inr s"
  by (simp add: getitem_def)

lemma setitem_codes:
  assumes "distinct (map fst (columns df))" "(col, s) \<in> set (columns df)"
  shows "setitem df col (Float (codes s)) = df\<lparr>columns := map (enum_sel [col]) (columns df)\<rparr>"
proof -
  have "c \<in> set (columns df) \<Longrightarrow> fst c = col \<Longrightarrow> snd c = s" for c
    using assms by (metis eq_key_imp_eq_value prod.collapse)
  then have "map (\<lambda>c. if fst c = col then (col, Float (codes s)) else c) (columns df)
      = map (enum_sel [col]) (columns df)"
    by (auto simp: enum_sel_def)
  moreover have "col \<in> set (map fst (columns df))"
    using assms(2) by force
  ultimately show ?thesis by (simp add: setitem_def)
qed

lemma enum_sel_Cons:
  "col \<notin> set cols \<Longrightarrow> enum_sel cols (enum_sel [col] c) = enum_sel (col # cols) c"
  by (auto simp: enum_sel_def)

lemma enumerate_loop_eq:
  assumes "r < length st" "distinct (map fst (columns (st ! r)))"
    "set cols \<subseteq> fst ` set (columns (st ! r))" "distinct cols"
  shows "enumerate_loop st r cols =
    (st[r := (st ! r)\<lparr>columns := map (enum_sel cols) (columns (st ! r))\<rparr>], Inr ())"
  using assms
proof (induction cols arbitrary: st)
  case Nil
  have "map (enum_sel []) cs = cs" for cs
    by (induction cs) (simp_all add: enum_sel_def)
  then show ?case by simp
next
  case (Cons col cols)
  let ?df = "st ! r"
  from Cons.prems obtain s where s: "(col, s) \<in> set (columns ?df)" by auto
  let ?df' = "?df\<lparr>columns := map (enum_sel [col]) (columns ?df)\<rparr>"
  let ?st' = "st[r := ?df']"
  have names: "map fst (columns ?df') = map fst (columns ?df)"
    using map_fst_enum_sel [of "[col]" "columns ?df"] by simp
  have at_r: "?st' ! r = ?df'"
    using Cons.prems by simp
  have step: "enumerate_loop st r (col # cols) = enumerate_loop ?st' r cols"
    using Cons.prems s
    by (simp add: load_def getitem_member enumerate_series_eq setitem_codes)
  have "enumerate_loop ?st' r cols =
    (?st'[r := (?st' ! r)\<lparr>columns := map (enum_sel cols) (columns (?st' ! r))\<rparr>], Inr ())"
  proof (rule Cons.IH)
    show "r < length ?st'" using Cons.prems by simp
    show "distinct (map fst (columns (?st' ! r)))"
      using Cons.prems(2) names unfolding at_r by (simp only:)
    have "fst ` set (columns ?df') = fst ` set (columns ?df)"
      using names by (metis list.set_map)
    then show "set cols \<subseteq> fst ` set (columns (?st' ! r))"
      using Cons.prems(3) unfolding at_r by simp
    show "distinct cols" using Cons.prems by simp
  qed
  also have "?st'[r := (?st' ! r)\<lparr>columns := map (enum_sel cols) (columns (?st' ! r))\<rparr>]
      = st[r := ?df\<lparr>columns := map (enum_sel (col # cols)) (columns ?df)\<rparr>]"
  proof -
    have comp: "map (enum_sel cols) (map (enum_sel [col]) (columns ?df))
        = map (enum_sel (col # cols)) (columns ?df)"
      using Cons.prems(4) by (simp add: enum_sel_Cons)
    show ?thesis
      unfolding at_r by (simp add: comp del: map_map)
  qed
  finally show ?case
    using step by simp
qed

lemma enum_sel_categorical:
  assumes "distinct (map fst cs)" "c \<in> set cs"
  shows "enum_sel (map fst (filter (\<lambda>c. is_object (snd c)) cs)) c = enum_col c"
proof (cases "is_object (snd c)")
  case True
  with assms(2) show ?thesis by (force simp: enum_sel_def enum_col_def)
next
  case False
  have "fst c \<notin> set (map fst (filter (\<lambda>c. is_object (snd c)) cs))"
  proof
    assume "fst c \<in> set (map fst (filter (\<lambda>c. is_object (snd c)) cs))"
    then obtain c' where c': "c' \<in> set cs" "is_object (snd c')" "fst c' = fst c" by auto
    with assms have "snd c' = snd c"
      by (metis eq_key_imp_eq_value prod.collapse)
    with c' False show False by simp
  qed
  with False show ?thesis by (simp add: enum_sel_def enum_col_def)
qed

lemma enumerate_loop_fresh:
  assumes "distinct (map fst (columns df0))"
  shows "enumerate_loop (st @ [df0]) (length st) (categorical_columns df0)
    = (st @ [enumerated df0], Inr ())"
proof -
  let ?cats = "categorical_columns df0"
  have "enumerate_loop (st @ [df0]) (length st) ?cats =
    ((st @ [df0])[length st := ((st @ [df0]) ! length st)
        \<lparr>columns := map (enum_sel ?cats) (columns ((st @ [df0]) ! length st))\<rparr>], Inr ())"
  proof (rule enumerate_loop_eq)
    show "length st < length (st @ [df0])" by simp
    show "distinct (map fst (columns ((st @ [df0]) ! length st)))" using assms by simp
    show "set ?cats \<subseteq> fst ` set (columns ((st @ [df0]) ! length st))"
      by (auto simp: categorical_columns_def)
    show "distinct ?cats"
      unfolding categorical_columns_def using assms by (rule distinct_map_filter)
  qed
  moreover have "map (enum_sel ?cats) (columns df0) = map enum_col (columns df0)"
    unfolding categorical_columns_def using assms by (simp add: enum_sel_categorical)
  ultimately show ?thesis
    by (simp add: enumerated_def)
qed

subsection \<open>Well-formed frames\<close>

lemma wf_df_drop:
  assumes "wf_df df" "df_drop df labels = Inr df0"
  shows "wf_df df0"
proof -
  from assms(2) have cols: "columns df0 = filter (\<lambda>c. fst c \<notin> set labels) (columns df)"
    and n: "nrows df0 = nrows df"
    by (auto simp: df_drop_def split: if_splits)
  from assms(1) have "distinct (map fst (columns df0))"
    unfolding cols wf_df_def by (simp add: distinct_map_filter)
  moreover from assms(1) have "\<forall>c\<in>set (columns df0). series_len (snd c) = nrows df0"
    unfolding cols n wf_df_def list_all_iff by simp
  ultimately show ?thesis
    by (simp add: wf_df_def list_all_iff)
qed

lemma wf_working_copy: "wf_df df \<Longrightarrow> working_copy df drop' = Inr df0 \<Longrightarrow> wf_df df0"
  by (auto simp: working_copy_def df_copy_def wf_df_drop split: option.splits)

lemma nrows_working_copy: "working_copy df drop' = Inr df0 \<Longrightarrow> nrows df0 = nrows df"
  by (auto simp: working_copy_def df_copy_def df_drop_def split: option.splits if_splits)

lemma columns_working_copy:
  "working_copy df drop' = Inr df0 \<Longrightarrow>
     columns df0 = filter (\<lambda>c. fst c \<notin> (case drop' of None \<Rightarrow> {} | Some labels \<Rightarrow> set labels)) (columns df)"
  by (auto simp: working_copy_def df_copy_def df_drop_def split: option.splits if_splits)

lemma series_len_codes: "length (codes s) = series_len s"
  by (cases s) simp_all

lemma fst_enum_col: "fst (enum_col c) = fst c"
  by (simp add: enum_col_def)

lemma map_fst_enum_col: "map fst (map enum_col cs) = map fst cs"
  by (induction cs) (simp_all add: fst_enum_col)

lemma series_len_enum_col: "series_len (snd (enum_col c)) = series_len (snd c)"
  by (simp add: enum_col_def series_len_codes)

lemma wf_enumerated:
  assumes "wf_df df"
  shows "wf_df (enumerated df)"
proof -
  have "distinct (map fst (columns (enumerated df)))"
    using assms by (simp add: wf_df_def enumerated_def map_fst_enum_col del: map_map)
  moreover have "\<forall>c\<in>set (columns (enumerated df)). series_len (snd c) = nrows (enumerated df)"
    using assms by (auto simp: wf_df_def enumerated_def list_all_iff series_len_enum_col)
  ultimately show ?thesis
    by (simp add: wf_df_def list_all_iff)
qed

subsection \<open>The result of \<open>_parallel_plot\<close>\<close>

lemma parallel_plot_store:
  "\<exists>rest. fst (parallel_plot fmt st r_raw drop' color palette') = st @ rest"
proof -
  have loop: "\<exists>rest. st' = st @ rest"
    if "enumerate_loop (st @ [d]) (length st) cats = (st', res)" for d cats st' res
  proof -
    let ?st' = "fst (enumerate_loop (st @ [d]) (length st) cats)"
    have "length ?st' = Suc (length st)" by (simp add: length_enumerate_loop)
    moreover have "\<forall>i<length st. ?st' ! i = st ! i"
      by (simp add: nth_enumerate_loop nth_append)
    ultimately have "take (length st) ?st' = st"
      by (simp add: list_eq_iff_nth_eq)
    then have "\<exists>rest. ?st' = st @ rest" by (metis append_take_drop_id)
    with that show ?thesis by simp
  qed
  show ?thesis
    by (auto simp: parallel_plot_def alloc_def Let_def dest: loop
        split: option.splits sum.splits prod.splits)
qed


subsection \<open>Reductions and normalisation\<close>


lemma reduce_max_eq: "xs \<noteq> [] \<Longrightarrow> reduce_max xs = Num (Max (set xs))"
  using Max.set_eq_fold [of "hd xs" "tl xs"] by (cases xs) simp_all







subsection \<open>The loop over the axes\<close>

lemma add_axis_eq:
  "add_axis fmt df_raw df cats p index col =
     (case column_axis fmt df_raw df cats (y_range p) index col of
        Inl e \<Rightarrow> Inl e
      | Inr (rng, ax) \<Rightarrow>
          Inr (p\<lparr>extra_y_ranges := (extra_y_ranges p)(col \<mapsto> rng), right := right p @ [ax]\<rparr>))"
  by (simp add: add_axis_def column_axis_def Let_def split: sum.splits prod.splits)


lemma add_axes_frame:
  "add_axes fmt df_raw df cats p index cols = Inr p' \<Longrightarrow>
     y_range p' = y_range p \<and> x_range p' = x_range p \<and> x_ticker p' = x_ticker p \<and>
     x_labels p' = x_labels p \<and> renderers p' = renderers p \<and> tools p' = tools p \<and>
     active_drag p' = active_drag p \<and> active_tap p' = active_tap p"
proof (induction cols arbitrary: p index)
  case Nil
  then show ?case by simp
next
  case (Cons col cols)
  from Cons.prems obtain rng ax where
    rest: "add_axes fmt df_raw df cats
        (p\<lparr>extra_y_ranges := (extra_y_ranges p)(col \<mapsto> rng), right := right p @ [ax]\<rparr>)
        (Suc index) cols = Inr p'"
    by (auto simp: add_axis_eq split: sum.splits prod.splits)
  from Cons.IH [OF rest] show ?case by simp
qed



subsection \<open>The codes of a column\<close>




lemma Min_real_upt: "0 < k \<Longrightarrow> Min (real ` {0..<k}) = 0"
  by (rule Min_eqI) auto



subsection \<open>The figure\<close>

lemma y_range_init:
  "y_range (init_figure df ndims) =
     \<lparr>r_start = Num 0, r_end = Num 1, r_bounds = Some (Num (- (1 / 10)), Num (11 / 10))\<rparr>"
  by (simp add: init_figure_def)

lemma padded_range_init:
  "padded_range (y_range (init_figure df ndims)) a b =
     Inr \<lparr>r_start = num_add a (num_mul (num_abs (num_sub b a)) (Num (- (1 / 10)))),
          r_end = num_add b (num_mul (num_abs (num_sub b a)) (Num (1 / 10))),
          r_bounds = Some (num_add a (num_mul (num_abs (num_sub b a)) (Num (- (1 / 10)))),
                           num_add b (num_mul (num_abs (num_sub b a)) (Num (1 / 10))))\<rparr>"
  by (simp add: padded_range_def y_range_init Let_def)



subsection \<open>The example\<close>

lemmas model_defs =
  parallel_plot_def load_def working_copy_def df_copy_def df_drop_def alloc_def
  color_values_def np_ones_def make_cmap_def default_palette_def categorical_columns_def
  getitem_def setitem_def enumerate_values_def unique_def np_where_eq_def build_figure_def
  make_source_def normalize_values_def to_rows_def init_figure_def arange_def add_axis_def
  column_range_def padded_range_def axis_ticks_def finish_figure_def Let_def



lemma example_store:
  "fst (parallel_plot fmt [example_df] 0 (Some [''c'']) None None) =
     [example_df,
      \<lparr>nrows = 3, columns = [(''a'', Float [1, 3, 2]), (''b'', Float [0, 1, 0])]\<rparr>]"
  by (simp add: example_df_def model_defs eval_nat_numeral)

subsection \<open>The columns of the working frame\<close>

lemma nth_columns_enumerated:
  "j < length (columns df0) \<Longrightarrow> columns (enumerated df0) ! j = enum_col (columns df0 ! j)"
  by (simp add: enumerated_def)

lemma length_columns_enumerated: "length (columns (enumerated df0)) = length (columns df0)"
  by (simp add: enumerated_def)

lemma nrows_enumerated: "nrows (enumerated df0) = nrows df0"
  by (simp add: enumerated_def)

lemma enum_col_Float: "\<exists>xs. snd (enum_col c) = Float xs"
  by (cases "snd c") (simp_all add: enum_col_def)

lemma getitem_nth:
  assumes "distinct (map fst (columns df))" "j < length (columns df)"
  shows "getitem df (fst (columns df ! j)) = Inr (snd (columns df ! j))"
proof -
  have "(fst (columns df ! j), snd (columns df ! j)) \<in> set (columns df)"
    using assms(2) by simp
  with assms(1) show ?thesis by (rule getitem_member)
qed


lemma working_copy_subset:
  "working_copy df_raw drop' = Inr df0 \<Longrightarrow> set (columns df0) \<subseteq> set (columns df_raw)"
  by (auto simp: working_copy_def df_copy_def df_drop_def split: option.splits if_splits)

lemma getitem_raw:
  assumes "wf_df df_raw" "working_copy df_raw drop' = Inr df0" "j < length (columns df0)"
  shows "getitem df_raw (fst (columns df0 ! j)) = Inr (snd (columns df0 ! j))"
proof -
  have "columns df0 ! j \<in> set (columns df_raw)"
    using working_copy_subset [OF assms(2)] assms(3) by auto
  then have "(fst (columns df0 ! j), snd (columns df0 ! j)) \<in> set (columns df_raw)" by simp
  with assms(1) show ?thesis by (simp add: getitem_member wf_df_def)
qed









subsection \<open>The colour mapper\<close>



subsection \<open>Unique values in order of first appearance\<close>




subsection \<open>The ticks of an axis\<close>




subsection \<open>The widgets\<close>




subsection \<open>When the call returns a figure\<close>

text \<open>
  The call returns a figure, for every colour and palette argument, when the frame has at
  least one row and every label to drop names a column.
\<close>

lemma normalize_columns_total:
  "\<forall>c\<in>set cs. \<not> is_object (snd c) \<Longrightarrow> \<exists>yss. normalize_columns cs = Inr yss"
proof (induction cs)
  case Nil
  then show ?case by simp
next
  case (Cons c cs)
  then obtain yss where "normalize_columns cs = Inr yss" by auto
  moreover from Cons.prems obtain xs where "snd c = Float xs" by (cases "snd c") auto
  ultimately show ?case by simp
qed

lemma add_axes_total:
  assumes "\<forall>c\<in>set cols. \<forall>i. \<exists>rng ax.
      column_axis fmt df_raw df cats (y_range p) i c = Inr (rng, ax)"
  shows "\<exists>p'. add_axes fmt df_raw df cats p index cols = Inr p'"
  using assms
proof (induction cols arbitrary: p index)
  case Nil
  then show ?case by simp
next
  case (Cons col cols)
  from Cons.prems obtain rng ax where
    ca: "column_axis fmt df_raw df cats (y_range p) index col = Inr (rng, ax)"
    by (meson list.set_intros(1))
  let ?p1 = "p\<lparr>extra_y_ranges := (extra_y_ranges p)(col \<mapsto> rng), right := right p @ [ax]\<rparr>"
  have "\<exists>p'. add_axes fmt df_raw df cats ?p1 (Suc index) cols = Inr p'"
  proof (rule Cons.IH)
    show "\<forall>c\<in>set cols. \<forall>i. \<exists>rng ax.
        column_axis fmt df_raw df cats (y_range ?p1) i c = Inr (rng, ax)"
      using Cons.prems by simp
  qed
  with ca show ?case by (simp add: add_axis_eq)
qed

lemma column_axis_total:
  assumes wf: "wf_df df_raw" and w: "working_copy df_raw drop' = Inr df0"
    and n: "0 < nrows df0" and j: "j < length (columns df0)"
  shows "\<exists>rng ax. column_axis fmt df_raw (enumerated df0) (categorical_columns df0)
      (y_range (init_figure d k)) i (fst (columns df0 ! j)) = Inr (rng, ax)"
proof -
  let ?name = "fst (columns df0 ! j)"
  have wf0: "wf_df df0" using wf w by (rule wf_working_copy)
  have wfe: "wf_df (enumerated df0)" using wf0 by (rule wf_enumerated)
  have je: "j < length (columns (enumerated df0))" using j by (simp add: length_columns_enumerated)
  have name: "fst (columns (enumerated df0) ! j) = ?name"
    using j by (simp add: nth_columns_enumerated fst_enum_col)
  obtain xs where xs: "snd (columns (enumerated df0) ! j) = Float xs"
    using enum_col_Float [of "columns df0 ! j"] j by (auto simp: nth_columns_enumerated)
  have "series_len (snd (columns (enumerated df0) ! j)) = nrows (enumerated df0)"
    using wfe je by (simp add: wf_df_def list_all_length)
  then have ne: "xs \<noteq> []" using n by (auto simp: xs nrows_enumerated)
  have "getitem (enumerated df0) (fst (columns (enumerated df0) ! j)) = Inr (Float xs)"
    using getitem_nth [OF _ je] wfe xs by (simp add: wf_df_def)
  then have cr: "column_range (enumerated df0) ?name = Inr (reduce_min xs, reduce_max xs)"
    by (simp add: column_range_def name)
  have g: "getitem df_raw ?name = Inr (snd (columns df0 ! j))"
    using wf w j by (rule getitem_raw)
  have "\<exists>tk ov. axis_ticks fmt df_raw (categorical_columns df0) ?name
      (reduce_min xs) (reduce_max xs) = Inr (tk, ov)"
    using ne g by (simp add: axis_ticks_def reduce_max_eq)
  then show ?thesis
    by (auto simp: column_axis_def cr padded_range_init)
qed

lemma color_values_total: "\<exists>cv. color_values npts color = Inr cv"
proof (cases color)
  case None
  then show ?thesis by (simp add: color_values_def)
next
  case (Some s)
  then show ?thesis by (cases s) (simp_all add: color_values_def enumerate_values_eq)
qed

lemma make_cmap_total:
  assumes "color_values npts color = Inr cv" "0 < npts"
  shows "\<exists>cm. make_cmap cv pal = Inr cm"
proof (cases cv)
  case (NpArray xs)
  with assms(1) have "xs = np_ones npts"
    by (auto simp: color_values_def split: option.splits series.splits sum.splits)
  with assms(2) obtain y ys where "xs = y # ys"
    by (cases npts) (auto simp: np_ones_def)
  with NpArray show ?thesis by (simp add: make_cmap_def)
next
  case (PdSeries xs)
  then show ?thesis by (simp add: make_cmap_def)
qed

lemma parallel_plot_returns:
  assumes l: "load st r_raw = Some df_raw" and wf: "wf_df df_raw"
    and n: "0 < nrows df_raw"
    and d: "case drop' of None \<Rightarrow> True
            | Some labels \<Rightarrow> set labels \<subseteq> set (map fst (columns df_raw))"
  shows "\<exists>st' p. parallel_plot fmt st r_raw drop' color palette' = (st', Inr p)"
proof -
  have "\<exists>df0. working_copy df_raw drop' = Inr df0"
  proof (cases drop')
    case None
    then show ?thesis by (simp add: working_copy_def)
  next
    case (Some labels)
    with d have "\<forall>l\<in>set labels. l \<in> set (map fst (columns df_raw))" by auto
    with Some show ?thesis by (simp add: working_copy_def df_drop_def list_all_iff)
  qed
  then obtain df0 where w: "working_copy df_raw drop' = Inr df0" by blast
  have wf0: "wf_df df0" using wf w by (rule wf_working_copy)
  have n0: "0 < nrows df0" using n nrows_working_copy [OF w] by simp
  obtain cv where c: "color_values (nrows df0) color = Inr cv"
    using color_values_total by blast
  obtain cmap where m: "make_cmap cv (default_palette palette') = Inr cmap"
    using make_cmap_total [OF c n0] by blast
  have e: "enumerate_loop (st @ [df0]) (length st) (categorical_columns df0)
      = (st @ [enumerated df0], Inr ())"
    using wf0 by (simp add: enumerate_loop_fresh wf_df_def)
  from l have r: "r_raw < length st" "st ! r_raw = df_raw"
    by (auto simp: load_def split: if_splits)
  have l1: "load (st @ [enumerated df0]) r_raw = Some df_raw"
    using r by (simp add: load_def nth_append)
  have l2: "load (st @ [enumerated df0]) (length st) = Some (enumerated df0)"
    by (simp add: load_def)
  have "\<forall>c\<in>set (columns (enumerated df0)). \<not> is_object (snd c)"
    by (auto simp: enumerated_def enum_col_def)
  from normalize_columns_total [OF this] obtain src where
    ms: "make_source (enumerated df0) (nrows df0) (length (columns df0)) cv = Inr src"
    by (auto simp: make_source_def)
  have names: "map fst (columns (enumerated df0)) = map fst (columns df0)"
    by (simp add: enumerated_def map_fst_enum_col del: map_map)
  let ?init = "init_figure (enumerated df0) (length (columns df0))"
  have "\<forall>c\<in>set (map fst (columns df0)). \<forall>i. \<exists>rng ax.
      column_axis fmt df_raw (enumerated df0) (categorical_columns df0) (y_range ?init) i c
        = Inr (rng, ax)"
  proof (intro ballI allI)
    fix c i assume "c \<in> set (map fst (columns df0))"
    then obtain j where "j < length (columns df0)" "c = fst (columns df0 ! j)"
      by (auto simp: in_set_conv_nth)
    with column_axis_total [OF wf w n0, of j fmt] show "\<exists>rng ax.
      column_axis fmt df_raw (enumerated df0) (categorical_columns df0) (y_range ?init) i c
        = Inr (rng, ax)"
      by simp
  qed
  from add_axes_total [OF this] obtain p0 where
    a: "add_axes fmt df_raw (enumerated df0) (categorical_columns df0) ?init 0
          (map fst (columns df0)) = Inr p0"
    by blast
  have "y_range p0 = y_range ?init" using add_axes_frame [OF a] by simp
  then obtain p where f: "finish_figure p0 src cmap = Inr p"
    by (simp add: finish_figure_def y_range_init Let_def)
  have "build_figure fmt (st @ [enumerated df0]) r_raw (length st) (categorical_columns df0)
      (nrows df0) (length (columns df0)) cv cmap = Inr p"
    by (simp add: build_figure_def l1 l2 ms names a f)
  then have "parallel_plot fmt st r_raw drop' color palette' = (st @ [enumerated df0], Inr p)"
    by (simp add: parallel_plot_def l w alloc_def c m e Let_def)
  then show ?thesis by blast
qed

text \<open>
  On a frame without rows the call raises where numpy cannot reduce or count: without a
  colour argument in \<open>np.ones(0).min()\<close>, and with a column of strings in
  \<open>np.arange(nan)\<close>.
\<close>

lemma parallel_plot_empty_frame:
  "snd (parallel_plot fmt [\<lparr>nrows = 0, columns = [(''a'', Float [])]\<rparr>] 0 None None None)
     = Inl ValueError"
  "snd (parallel_plot fmt [\<lparr>nrows = 0, columns = [(''b'', Object [])]\<rparr>] 0 None
          (Some (Float [])) None) = Inl ValueError"
  by (simp_all add: model_defs)

section \<open>The claims\<close>

text \<open>
  Each theorem below is about a call of \<open>_parallel_plot\<close> on the frame \<open>df_raw\<close> behind the
  reference \<open>r_raw\<close> that returns the figure \<open>p\<close> and leaves the store \<open>st'\<close>; \<open>df0\<close> is the
  frame of the retained columns. By \<open>parallel_plot_returns\<close> there is such a figure whenever
  the frame has a row and the labels to drop are labels of the frame.
\<close>
















text \<open>
  C8: \<open>_parallel_plot\<close> leaves its inputs as they were. Whatever the frame, the \<open>drop\<close>
  argument and the colours, and whether the call returns a figure or raises, every
  object that was in the store before the call is in it afterwards with the same
  contents: the store after the call is the store before it followed by new objects.
  Dropping and enumerating are done on the new frame (\<open>example_store\<close> shows one).
\<close>

theorem parallel_plot_leaves_inputs:
  "take (length st) (fst (parallel_plot fmt st r_raw drop' color palette')) = st"
proof -
  obtain rest where "fst (parallel_plot fmt st r_raw drop' color palette') = st @ rest"
    using parallel_plot_store by blast
  then show ?thesis by simp
qed





end
